theory Spec2Isabelle
  imports Complex_Main
begin

section \<open>Data model\<close>

text \<open>
  The access-grant entity, the document entity and the download audit log of the
  document access platform, with the three services that act on them
  (ExternalRequestorService, DocumentService, VerificationDownloadService).

  Conventions of the embedding:
  \<^item> a \<open>Date\<close> taken from the clock is its \<open>getTime()\<close> value, an integer number of
    milliseconds (\<open>date\<close>); a \<open>Date\<close> built from a string is a \<open>jsDate\<close>, an instant or
    \<open>Invalid Date\<close>;
  \<^item> a nullable column is an \<open>option\<close>;
  \<^item> every reading of the wall clock inside one service call is the one instant
    \<open>now\<close> passed to the call;
  \<^item> the values produced by \<open>uuidv4()\<close>, \<open>Math.random()\<close> and the primary-key
    generator are parameters of the call;
  \<^item> a repository is the list of its rows; \<open>findOne\<close> returns the first row matching,
    \<open>save\<close> of a loaded row replaces the row with the same primary key;
  \<^item> a thrown exception is the \<open>Inl\<close> of the result, next to the store as it is at
    the moment of the throw;
  \<^item> the columns maintained by the ORM alone (\<open>requestedAt\<close>, \<open>updatedAt\<close>) and the
    texts of messages and notifications are left out.
\<close>

type_synonym date = int

datatype jsDate = Instant date | InvalidDate

datatype AccessStatus = PENDING | APPROVED | DENIED | REVOKED

datatype VisibilityStatus = PUBLIC | HIDDEN

datatype DownloadAction =
    DOWNLOAD_INITIATED | DOWNLOAD_COMPLETED | DOWNLOAD_FAILED
  | SESSION_CREATED | SESSION_EXPIRED
  | OTP_REQUESTED | OTP_VERIFIED | OTP_FAILED | VERIFICATION_FAILED

datatype error =
    NotFoundException | BadRequestException | ConflictException
  | ForbiddenException | TypeError | RangeError | QueryFailedError

record AccessGrant =
  id_ag :: string
  documentId :: string
  requestorEmail :: string
  requestorName :: "string option"
  requestorOrganization :: "string option"
  requestPurpose :: string
  accessToken :: "string option"
  status :: AccessStatus
  expiryDate :: "jsDate option"
  denialReason :: "string option"
  approvalMessage :: "string option"
  revocationMessage :: "string option"
  actionCompletedAt :: "date option"
  otp :: "string option"
  otpExpiryDate :: "date option"
  otpAttempts :: int
  isVerified :: bool
  verifiedAt :: "date option"
  downloadSessionToken :: "string option"
  lastActivityAt :: "date option"

record DocumentFile =
  id_doc :: string
  filename :: string
  storagePath :: string
  visibilityStatus :: VisibilityStatus
  ownerId :: string
  deletedAt :: "date option"

record DownloadAuditLog =
  accessGrantId :: string
  documentId_log :: string
  requestorEmail_log :: string
  action :: DownloadAction
  ipAddress :: "string option"
  userAgent :: "string option"
  bytesDownloaded :: "int option"

record store =
  grants :: "AccessGrant list"
  documents :: "DocumentFile list"
  auditLogs :: "DownloadAuditLog list"

text \<open>JavaScript truthiness of an optional string: \<open>undefined\<close>, \<open>null\<close> and \<open>''\<close> are falsy.\<close>

fun truthy :: "string option \<Rightarrow> bool" where
  "truthy None = False"
| "truthy (Some s) = (s \<noteq> [])"

text \<open>
  The comparisons \<open>d < new Date()\<close> and \<open>d <= now\<close> of a \<open>Date\<close> built from a string
  with an instant of the clock. The time value of \<open>Invalid Date\<close> is \<open>NaN\<close>, and every
  comparison with it is false.
\<close>

fun date_lt :: "jsDate \<Rightarrow> date \<Rightarrow> bool" where
  "date_lt (Instant t) now = (t < now)"
| "date_lt InvalidDate now = False"

fun date_le :: "jsDate \<Rightarrow> date \<Rightarrow> bool" where
  "date_le (Instant t) now = (t \<le> now)"
| "date_le InvalidDate now = False"

section \<open>Entity predicates of AccessGrant\<close>

definition isActive :: "date \<Rightarrow> AccessGrant \<Rightarrow> bool" where
  "isActive now g =
     (if status g \<noteq> APPROVED then False
      else case expiryDate g of
             Some e \<Rightarrow> (if date_lt e now then False else True)
           | None \<Rightarrow> True)"

definition isExpired :: "date \<Rightarrow> AccessGrant \<Rightarrow> bool" where
  "isExpired now g =
     (if status g \<noteq> APPROVED then False
      else case expiryDate g of
             Some e \<Rightarrow> (if date_lt e now then True else False)
           | None \<Rightarrow> False)"

definition isOtpExpired :: "date \<Rightarrow> AccessGrant \<Rightarrow> bool" where
  "isOtpExpired now g =
     (case otpExpiryDate g of None \<Rightarrow> True | Some e \<Rightarrow> e < now)"

definition canRequestOtp :: "date \<Rightarrow> AccessGrant \<Rightarrow> bool" where
  "canRequestOtp now g =
     (if status g \<noteq> APPROVED then False
      else if isExpired now g then False
      else True)"

definition canVerifyOtp :: "date \<Rightarrow> AccessGrant \<Rightarrow> bool" where
  "canVerifyOtp now g =
     (if \<not> truthy (otp g) then False
      else if isOtpExpired now g then False
      else if otpAttempts g \<ge> 3 then False
      else True)"

text \<open>
  \<open>inactiveMinutes\<close> is the quotient \<open>(Date.now() - lastActivityAt.getTime()) / (1000 * 60)\<close>,
  taken here in the reals.
\<close>

definition isSessionActive :: "date \<Rightarrow> AccessGrant \<Rightarrow> bool" where
  "isSessionActive now g =
     (if \<not> isVerified g then False
      else if isExpired now g then False
      else case lastActivityAt g of
             Some l \<Rightarrow> real_of_int (now - l) / (1000 * 60) < 60
           | None \<Rightarrow> True)"

section \<open>Repositories\<close>

text \<open>
  \<open>save\<close> of a row that was loaded from the repository writes the row back under its
  primary key. \<open>save\<close> of a new entity inserts it under the generated key; the primary-key
  constraint of the table rejects a key that is already there.
\<close>

definition saveGrant :: "AccessGrant \<Rightarrow> store \<Rightarrow> store" where
  "saveGrant g s =
     s\<lparr>grants := map (\<lambda>x. if id_ag x = id_ag g then g else x) (grants s)\<rparr>"

definition insertGrant :: "AccessGrant \<Rightarrow> store \<Rightarrow> error + store" where
  "insertGrant g s =
     (if id_ag g \<in> set (map id_ag (grants s)) then Inl QueryFailedError
      else Inr (s\<lparr>grants := grants s @ [g]\<rparr>))"

definition saveDocument :: "DocumentFile \<Rightarrow> store \<Rightarrow> store" where
  "saveDocument d s =
     s\<lparr>documents := map (\<lambda>x. if id_doc x = id_doc d then d else x) (documents s)\<rparr>"

text \<open>The query of \<open>submitAccessRequest\<close>: the document by id, public and not deleted.\<close>

definition findPublicDocument :: "string \<Rightarrow> store \<Rightarrow> DocumentFile option" where
  "findPublicDocument did s =
     find (\<lambda>d. id_doc d = did \<and> visibilityStatus d = PUBLIC \<and> deletedAt d = None)
       (documents s)"

text \<open>\<open>documentRepository.findOne({ where: { id: documentId, ownerId } })\<close>\<close>

definition findOwnedDocument :: "string \<Rightarrow> string \<Rightarrow> store \<Rightarrow> DocumentFile option" where
  "findOwnedDocument did oid s =
     find (\<lambda>d. id_doc d = did \<and> ownerId d = oid) (documents s)"

text \<open>\<open>accessGrantRepository.findOne({ where: { id: accessGrantId, documentId } })\<close>\<close>

definition findGrantOfDocument :: "string \<Rightarrow> string \<Rightarrow> store \<Rightarrow> AccessGrant option" where
  "findGrantOfDocument gid did s =
     find (\<lambda>g. id_ag g = gid \<and> documentId g = did) (grants s)"

definition findAccessGrantByTokenAndEmail ::
  "string \<Rightarrow> string \<Rightarrow> store \<Rightarrow> AccessGrant option" where
  "findAccessGrantByTokenAndEmail token email s =
     find (\<lambda>g. accessToken g = Some token \<and> requestorEmail g = email) (grants s)"

text \<open>\<open>findOne({ where: { downloadSessionToken, isVerified: true } })\<close>\<close>

definition findVerifiedSession :: "string \<Rightarrow> store \<Rightarrow> AccessGrant option" where
  "findVerifiedSession token s =
     find (\<lambda>g. downloadSessionToken g = Some token \<and> isVerified g) (grants s)"

text \<open>The relation \<open>accessGrant.document\<close>, loaded through the foreign key.\<close>

definition documentOf :: "AccessGrant \<Rightarrow> store \<Rightarrow> DocumentFile option" where
  "documentOf g s = find (\<lambda>d. id_doc d = documentId g) (documents s)"

section \<open>ExternalRequestorService\<close>

record SubmitAccessRequestDto =
  requestorEmail_dto :: string
  requestorName_dto :: "string option"
  requestorOrganization_dto :: "string option"
  requestPurpose_dto :: string

record AccessRequestSubmissionResponseDto =
  id_resp :: string
  documentId_resp :: string
  filename_resp :: string
  requestorEmail_resp :: string
  requestUUID :: string
  status_resp :: AccessStatus

text \<open>
  \<open>newId\<close> is the primary key generated for the row, \<open>uuid\<close> the result of \<open>uuidv4()\<close>.
  The columns the call to \<open>create\<close> does not give take their defaults.
\<close>

definition submitAccessRequest ::
  "string \<Rightarrow> string \<Rightarrow> string \<Rightarrow> SubmitAccessRequestDto \<Rightarrow> store
     \<Rightarrow> (error + AccessRequestSubmissionResponseDto) \<times> store" where
  "submitAccessRequest newId uuid did submitDto s =
     (case findPublicDocument did s of
        None \<Rightarrow> (Inl NotFoundException, s)
      | Some document \<Rightarrow>
          (case find (\<lambda>g. documentId g = did
                         \<and> requestorEmail g = requestorEmail_dto submitDto
                         \<and> status g = PENDING) (grants s) of
             Some existingPendingRequest \<Rightarrow> (Inl ConflictException, s)
           | None \<Rightarrow>
               (let accessGrant =
                      \<lparr> id_ag = newId,
                        documentId = did,
                        requestorEmail = requestorEmail_dto submitDto,
                        requestorName =
                          (if truthy (requestorName_dto submitDto)
                           then requestorName_dto submitDto
                           else Some (requestorEmail_dto submitDto)),
                        requestorOrganization = requestorOrganization_dto submitDto,
                        requestPurpose = requestPurpose_dto submitDto,
                        accessToken = Some uuid,
                        status = PENDING,
                        expiryDate = None,
                        denialReason = None,
                        approvalMessage = None,
                        revocationMessage = None,
                        actionCompletedAt = None,
                        otp = None,
                        otpExpiryDate = None,
                        otpAttempts = 0,
                        isVerified = False,
                        verifiedAt = None,
                        downloadSessionToken = None,
                        lastActivityAt = None \<rparr>
                in case insertGrant accessGrant s of
                     Inl e \<Rightarrow> (Inl e, s)
                   | Inr s' \<Rightarrow>
                       (Inr \<lparr> id_resp = newId,
                              documentId_resp = did,
                              filename_resp = filename document,
                              requestorEmail_resp = requestorEmail_dto submitDto,
                              requestUUID = uuid,
                              status_resp = PENDING \<rparr>, s'))))"

section \<open>DocumentService\<close>

text \<open>
  \<open>expiryDate_dto\<close> is the value of \<open>new Date(approveDto.expiryDate)\<close>: the instant the
  string denotes, or \<open>Invalid Date\<close> when the string does not parse.
\<close>

record ApproveAccessRequestDto =
  expiryDate_dto :: jsDate
  message_dto :: "string option"

definition updateDocumentVisibility ::
  "string \<Rightarrow> string \<Rightarrow> VisibilityStatus \<Rightarrow> store \<Rightarrow> (error + DocumentFile) \<times> store" where
  "updateDocumentVisibility did oid v s =
     (case findOwnedDocument did oid s of
        None \<Rightarrow> (Inl NotFoundException, s)
      | Some document \<Rightarrow>
          if deletedAt document \<noteq> None then (Inl BadRequestException, s)
          else (let d = document\<lparr>visibilityStatus := v\<rparr>
                in (Inr d, saveDocument d s)))"

definition deleteDocument ::
  "date \<Rightarrow> string \<Rightarrow> string \<Rightarrow> store \<Rightarrow> (error + unit) \<times> store" where
  "deleteDocument now did oid s =
     (case findOwnedDocument did oid s of
        None \<Rightarrow> (Inl NotFoundException, s)
      | Some document \<Rightarrow>
          (let activeAccessGrants =
                 filter (\<lambda>ag. status ag = APPROVED \<and> isActive now ag)
                   (filter (\<lambda>ag. documentId ag = id_doc document) (grants s))
           in if length activeAccessGrants > 0 then (Inl BadRequestException, s)
              else (Inr (), saveDocument (document\<lparr>deletedAt := Some now\<rparr>) s)))"

definition revokeAccessGrant ::
  "date \<Rightarrow> string \<Rightarrow> string \<Rightarrow> string \<Rightarrow> string option \<Rightarrow> store
     \<Rightarrow> (error + unit) \<times> store" where
  "revokeAccessGrant now did gid oid message s =
     (case findOwnedDocument did oid s of
        None \<Rightarrow> (Inl NotFoundException, s)
      | Some document \<Rightarrow>
          (case findGrantOfDocument gid did s of
             None \<Rightarrow> (Inl NotFoundException, s)
           | Some accessGrant \<Rightarrow>
               (let g1 = accessGrant\<lparr>status := REVOKED\<rparr>;
                    g2 = (if truthy message then g1\<lparr>revocationMessage := message\<rparr> else g1);
                    g3 = g2\<lparr>actionCompletedAt := Some now\<rparr>
                in (Inr (), saveGrant g3 s))))"

text \<open>
  After the save, \<open>approveAccessRequest\<close> builds the notification with
  \<open>expiryDate.toISOString()\<close>, which throws \<open>RangeError\<close> on \<open>Invalid Date\<close>.
\<close>

definition approveAccessRequest ::
  "date \<Rightarrow> string \<Rightarrow> string \<Rightarrow> string \<Rightarrow> ApproveAccessRequestDto \<Rightarrow> store
     \<Rightarrow> (error + AccessGrant) \<times> store" where
  "approveAccessRequest now did gid oid approveDto s =
     (case findOwnedDocument did oid s of
        None \<Rightarrow> (Inl NotFoundException, s)
      | Some document \<Rightarrow>
          (case findGrantOfDocument gid did s of
             None \<Rightarrow> (Inl NotFoundException, s)
           | Some accessGrant \<Rightarrow>
               if status accessGrant \<noteq> PENDING then (Inl BadRequestException, s)
               else if date_le (expiryDate_dto approveDto) now
               then (Inl BadRequestException, s)
               else
                 (let g1 = accessGrant\<lparr>status := APPROVED,
                                         expiryDate := Some (expiryDate_dto approveDto)\<rparr>;
                      g2 = (if truthy (message_dto approveDto)
                            then g1\<lparr>approvalMessage := message_dto approveDto\<rparr> else g1);
                      g3 = g2\<lparr>actionCompletedAt := Some now\<rparr>;
                      s1 = saveGrant g3 s
                  in case expiryDate_dto approveDto of
                       InvalidDate \<Rightarrow> (Inl RangeError, s1)
                     | Instant t \<Rightarrow> (Inr g3, s1))))"

definition denyAccessRequest ::
  "date \<Rightarrow> string \<Rightarrow> string \<Rightarrow> string \<Rightarrow> string option \<Rightarrow> store
     \<Rightarrow> (error + AccessGrant) \<times> store" where
  "denyAccessRequest now did gid oid reason s =
     (case findOwnedDocument did oid s of
        None \<Rightarrow> (Inl NotFoundException, s)
      | Some document \<Rightarrow>
          (case findGrantOfDocument gid did s of
             None \<Rightarrow> (Inl NotFoundException, s)
           | Some accessGrant \<Rightarrow>
               if status accessGrant \<noteq> PENDING then (Inl BadRequestException, s)
               else
                 (let g1 = accessGrant\<lparr>status := DENIED\<rparr>;
                      g2 = (if truthy reason then g1\<lparr>denialReason := reason\<rparr> else g1);
                      g3 = g2\<lparr>actionCompletedAt := Some now\<rparr>
                  in (Inr g3, saveGrant g3 s))))"

text \<open>The body of the loop of \<open>bulkRevokeAccess\<close>, for one grant of \<open>grantsToRevoke\<close>.\<close>

definition revokeOne :: "date \<Rightarrow> string option \<Rightarrow> AccessGrant \<Rightarrow> AccessGrant" where
  "revokeOne now message grant =
     (let g1 = grant\<lparr>status := REVOKED\<rparr>;
          g2 = (if truthy message then g1\<lparr>revocationMessage := message\<rparr> else g1)
      in g2\<lparr>actionCompletedAt := Some now\<rparr>)"

fun revokeEach :: "date \<Rightarrow> string option \<Rightarrow> AccessGrant list \<Rightarrow> store \<Rightarrow> store" where
  "revokeEach now message [] s = s"
| "revokeEach now message (grant # rest) s =
     revokeEach now message rest (saveGrant (revokeOne now message grant) s)"

definition bulkRevokeAccess ::
  "date \<Rightarrow> string \<Rightarrow> string \<Rightarrow> string option \<Rightarrow> store \<Rightarrow> (error + unit) \<times> store" where
  "bulkRevokeAccess now did oid message s =
     (case findOwnedDocument did oid s of
        None \<Rightarrow> (Inl NotFoundException, s)
      | Some document \<Rightarrow>
          (let activeGrants =
                 filter (\<lambda>g. documentId g = did \<and> status g = APPROVED) (grants s);
               grantsToRevoke = filter (\<lambda>ag. \<not> isExpired now ag) activeGrants
           in (Inr (), revokeEach now message grantsToRevoke s)))"

section \<open>VerificationDownloadService\<close>

text \<open>
  \<open>auditLogRepository.save\<close> is a parameter of the service: given the rows of the
  audit table and a new row, it returns the table with the row written, or \<open>None\<close>
  when the write throws. \<open>auditSaveOk\<close> is the repository that always writes,
  \<open>auditSaveFails\<close> the one that always throws.
\<close>

type_synonym auditSave = "DownloadAuditLog list \<Rightarrow> DownloadAuditLog \<Rightarrow> DownloadAuditLog list option"

definition auditSaveOk :: auditSave where
  "auditSaveOk logs l = Some (logs @ [l])"

definition auditSaveFails :: auditSave where
  "auditSaveFails logs l = None"

definition OTP_VALIDITY_MINUTES :: int where
  "OTP_VALIDITY_MINUTES = 15"

definition OTP_MAX_ATTEMPTS :: int where
  "OTP_MAX_ATTEMPTS = 3"

definition SESSION_TIMEOUT_MINUTES :: int where
  "SESSION_TIMEOUT_MINUTES = 60"

text \<open>
  The whole body of \<open>createAuditLog\<close> is inside \<open>try\<close>; the \<open>catch\<close> writes to the
  logger and returns. \<open>x || null\<close> keeps a truthy \<open>x\<close>.
\<close>

definition createAuditLog ::
  "auditSave \<Rightarrow> AccessGrant \<Rightarrow> DownloadAction \<Rightarrow> string option \<Rightarrow> string option
     \<Rightarrow> int option \<Rightarrow> store \<Rightarrow> store" where
  "createAuditLog save accessGrant act ip ua bytes s =
     (let auditLog =
            \<lparr> accessGrantId = id_ag accessGrant,
              documentId_log = documentId accessGrant,
              requestorEmail_log = requestorEmail accessGrant,
              action = act,
              ipAddress = (if truthy ip then ip else None),
              userAgent = (if truthy ua then ua else None),
              bytesDownloaded = (case bytes of
                                   Some n \<Rightarrow> (if n \<noteq> 0 then Some n else None)
                                 | None \<Rightarrow> None) \<rparr>
      in case save (auditLogs s) auditLog of
           Some logs \<Rightarrow> s\<lparr>auditLogs := logs\<rparr>
         | None \<Rightarrow> s)"

record VerificationInitiateResponseDto =
  requestUUID_init :: "string option"
  requestorEmail_init :: string
  requestorName_init :: "string option"
  documentName_init :: string

definition initiateVerification ::
  "auditSave \<Rightarrow> date \<Rightarrow> string \<Rightarrow> string \<Rightarrow> store
     \<Rightarrow> (error + VerificationInitiateResponseDto) \<times> store" where
  "initiateVerification save now uuid email s =
     (case findAccessGrantByTokenAndEmail uuid email s of
        None \<Rightarrow> (Inl NotFoundException, s)
      | Some accessGrant \<Rightarrow>
          if status accessGrant \<noteq> APPROVED then (Inl BadRequestException, s)
          else if isExpired now accessGrant then (Inl BadRequestException, s)
          else (case documentOf accessGrant s of
                  None \<Rightarrow> (Inl TypeError, s)
                | Some document \<Rightarrow>
                    if visibilityStatus document \<noteq> PUBLIC then (Inl ForbiddenException, s)
                    else (Inr \<lparr> requestUUID_init = accessToken accessGrant,
                                requestorEmail_init = requestorEmail accessGrant,
                                requestorName_init = requestorName accessGrant,
                                documentName_init =
                                  (if filename document \<noteq> [] then filename document
                                   else ''Document'') \<rparr>,
                          createAuditLog save accessGrant SESSION_CREATED None None None s)))"

record RequestOtpResponseDto =
  otpSentTo :: string
  expiresIn_otp :: int

text \<open>\<open>newOtp\<close> is \<open>Math.floor(100000 + Math.random() * 900000).toString()\<close>.\<close>

definition requestOtp ::
  "auditSave \<Rightarrow> date \<Rightarrow> string \<Rightarrow> string \<Rightarrow> string \<Rightarrow> store
     \<Rightarrow> (error + RequestOtpResponseDto) \<times> store" where
  "requestOtp save now newOtp uuid email s =
     (case findAccessGrantByTokenAndEmail uuid email s of
        None \<Rightarrow> (Inl NotFoundException, s)
      | Some accessGrant \<Rightarrow>
          if \<not> canRequestOtp now accessGrant then (Inl BadRequestException, s)
          else (case documentOf accessGrant s of
                  None \<Rightarrow> (Inl TypeError, s)
                | Some document \<Rightarrow>
                    if visibilityStatus document \<noteq> PUBLIC then (Inl ForbiddenException, s)
                    else
                      (let expiry = now + OTP_VALIDITY_MINUTES * 60 * 1000;
                           stale = (isVerified accessGrant \<and> \<not> isSessionActive now accessGrant);
                           g1 = (if stale
                                 then accessGrant\<lparr>isVerified := False,
                                                  verifiedAt := None,
                                                  downloadSessionToken := None,
                                                  lastActivityAt := None\<rparr>
                                 else accessGrant);
                           s1 = (if stale
                                 then createAuditLog save g1 SESSION_EXPIRED None None None s
                                 else s);
                           g2 = g1\<lparr>otp := Some newOtp,
                                    otpExpiryDate := Some expiry,
                                    otpAttempts := 0\<rparr>;
                           s2 = saveGrant g2 s1;
                           s3 = createAuditLog save g2 OTP_REQUESTED None None None s2
                       in (Inr \<lparr> otpSentTo = requestorEmail g2,
                                  expiresIn_otp = OTP_VALIDITY_MINUTES * 60 \<rparr>, s3))))"

record VerifyOtpResponseDto =
  downloadSessionToken_resp :: string
  expiresIn_session :: int

text \<open>\<open>token\<close> is the result of \<open>uuidv4()\<close>, \<open>code\<close> the field \<open>dto.otp\<close>.\<close>

definition verifyOtp ::
  "auditSave \<Rightarrow> date \<Rightarrow> string \<Rightarrow> string \<Rightarrow> string \<Rightarrow> string \<Rightarrow> store
     \<Rightarrow> (error + VerifyOtpResponseDto) \<times> store" where
  "verifyOtp save now token uuid email code s =
     (case findAccessGrantByTokenAndEmail uuid email s of
        None \<Rightarrow> (Inl NotFoundException, s)
      | Some accessGrant \<Rightarrow>
          if \<not> canVerifyOtp now accessGrant then
            (if otpAttempts accessGrant \<ge> OTP_MAX_ATTEMPTS
             then (Inl ConflictException,
                   createAuditLog save accessGrant OTP_FAILED None None None s)
             else (Inl BadRequestException, s))
          else if otp accessGrant \<noteq> Some code then
            (let g1 = accessGrant\<lparr>otpAttempts := otpAttempts accessGrant + 1\<rparr>;
                 s1 = saveGrant g1 s
             in (Inl BadRequestException,
                 createAuditLog save g1 OTP_FAILED None None None s1))
          else
            (let g1 = accessGrant\<lparr>isVerified := True,
                                   verifiedAt := Some now,
                                   downloadSessionToken := Some token,
                                   lastActivityAt := Some now,
                                   otp := Some []\<rparr>;
                 s1 = saveGrant g1 s
             in (Inr \<lparr> downloadSessionToken_resp = token,
                        expiresIn_session = SESSION_TIMEOUT_MINUTES * 60 \<rparr>,
                 createAuditLog save g1 OTP_VERIFIED None None None s1)))"

record SessionStatusDto =
  isValid :: bool
  expiresIn_status :: int
  requestorEmail_status :: string
  documentName_status :: string

definition validateDownloadSession ::
  "auditSave \<Rightarrow> date \<Rightarrow> string \<Rightarrow> store \<Rightarrow> (error + SessionStatusDto) \<times> store" where
  "validateDownloadSession save now token s =
     (case findVerifiedSession token s of
        None \<Rightarrow> (Inl NotFoundException, s)
      | Some accessGrant \<Rightarrow>
          if \<not> isSessionActive now accessGrant then
            (Inl ForbiddenException,
             createAuditLog save accessGrant SESSION_EXPIRED None None None s)
          else (case documentOf accessGrant s of
                  None \<Rightarrow> (Inl TypeError, s)
                | Some document \<Rightarrow>
                    if visibilityStatus document \<noteq> PUBLIC then
                      (Inl ForbiddenException,
                       createAuditLog save accessGrant SESSION_EXPIRED None None None s)
                    else
                      (let g1 = accessGrant\<lparr>lastActivityAt := Some now\<rparr>
                       in (Inr \<lparr> isValid = True,
                                  expiresIn_status = SESSION_TIMEOUT_MINUTES * 60,
                                  requestorEmail_status = requestorEmail g1,
                                  documentName_status = filename document \<rparr>,
                           saveGrant g1 s))))"

definition getDocumentForDownload ::
  "auditSave \<Rightarrow> date \<Rightarrow> string \<Rightarrow> store
     \<Rightarrow> (error + AccessGrant \<times> DocumentFile) \<times> store" where
  "getDocumentForDownload save now token s =
     (case findVerifiedSession token s of
        None \<Rightarrow> (Inl NotFoundException, s)
      | Some accessGrant \<Rightarrow>
          if \<not> isSessionActive now accessGrant then
            (Inl ForbiddenException,
             createAuditLog save accessGrant SESSION_EXPIRED None None None s)
          else (case documentOf accessGrant s of
                  None \<Rightarrow> (Inl TypeError, s)
                | Some document \<Rightarrow>
                    if visibilityStatus document \<noteq> PUBLIC then
                      (Inl ForbiddenException,
                       createAuditLog save accessGrant DOWNLOAD_FAILED None None None s)
                    else
                      (let g1 = accessGrant\<lparr>lastActivityAt := Some now\<rparr>
                       in (Inr (g1, document), saveGrant g1 s))))"

definition recordDownload ::
  "auditSave \<Rightarrow> date \<Rightarrow> string \<Rightarrow> int \<Rightarrow> string \<Rightarrow> string \<Rightarrow> store
     \<Rightarrow> (error + unit) \<times> store" where
  "recordDownload save now token bytes ip ua s =
     (case findVerifiedSession token s of
        None \<Rightarrow> (Inl NotFoundException, s)
      | Some accessGrant \<Rightarrow>
          if \<not> isSessionActive now accessGrant then (Inl ForbiddenException, s)
          else
            (let g1 = accessGrant\<lparr>lastActivityAt := Some now\<rparr>;
                 s1 = saveGrant g1 s
             in (Inr (),
                 createAuditLog save g1 DOWNLOAD_COMPLETED (Some ip) (Some ua) (Some bytes) s1)))"

section \<open>The operations as commands\<close>

text \<open>
  One constructor per operation of the three services that writes to a repository, with
  the arguments of the call and the values it draws from its environment. \<open>perform\<close>
  runs a command and gives the exception it throws, if any, and the store it leaves;
  \<open>exec\<close> keeps the store; \<open>run\<close> runs a sequence of commands.
\<close>

datatype command =
    SubmitAccessRequest string string string SubmitAccessRequestDto
  | ApproveAccessRequest date string string string ApproveAccessRequestDto
  | DenyAccessRequest date string string string "string option"
  | RevokeAccessGrant date string string string "string option"
  | BulkRevokeAccess date string string "string option"
  | UpdateDocumentVisibility string string VisibilityStatus
  | DeleteDocument date string string
  | InitiateVerification date string string
  | RequestOtp date string string string
  | VerifyOtp date string string string string
  | ValidateDownloadSession date string
  | GetDocumentForDownload date string
  | RecordDownload date string int string string

fun thrown :: "(error + 'a) \<times> store \<Rightarrow> error option \<times> store" where
  "thrown (Inl e, s) = (Some e, s)"
| "thrown (Inr v, s) = (None, s)"

fun perform :: "auditSave \<Rightarrow> command \<Rightarrow> store \<Rightarrow> error option \<times> store" where
  "perform save (SubmitAccessRequest newId uuid did dto) s =
     thrown (submitAccessRequest newId uuid did dto s)"
| "perform save (ApproveAccessRequest now did gid oid dto) s =
     thrown (approveAccessRequest now did gid oid dto s)"
| "perform save (DenyAccessRequest now did gid oid reason) s =
     thrown (denyAccessRequest now did gid oid reason s)"
| "perform save (RevokeAccessGrant now did gid oid message) s =
     thrown (revokeAccessGrant now did gid oid message s)"
| "perform save (BulkRevokeAccess now did oid message) s =
     thrown (bulkRevokeAccess now did oid message s)"
| "perform save (UpdateDocumentVisibility did oid v) s =
     thrown (updateDocumentVisibility did oid v s)"
| "perform save (DeleteDocument now did oid) s =
     thrown (deleteDocument now did oid s)"
| "perform save (InitiateVerification now uuid email) s =
     thrown (initiateVerification save now uuid email s)"
| "perform save (RequestOtp now newOtp uuid email) s =
     thrown (requestOtp save now newOtp uuid email s)"
| "perform save (VerifyOtp now token uuid email code) s =
     thrown (verifyOtp save now token uuid email code s)"
| "perform save (ValidateDownloadSession now token) s =
     thrown (validateDownloadSession save now token s)"
| "perform save (GetDocumentForDownload now token) s =
     thrown (getDocumentForDownload save now token s)"
| "perform save (RecordDownload now token bytes ip ua) s =
     thrown (recordDownload save now token bytes ip ua s)"

definition exec :: "auditSave \<Rightarrow> command \<Rightarrow> store \<Rightarrow> store" where
  "exec save c s = snd (perform save c s)"

fun isRevokeAccessGrant :: "command \<Rightarrow> bool" where
  "isRevokeAccessGrant (RevokeAccessGrant now did gid oid message) = True"
| "isRevokeAccessGrant c = False"

fun isRequestOtp :: "command \<Rightarrow> bool" where
  "isRequestOtp (RequestOtp now newOtp uuid email) = True"
| "isRequestOtp c = False"

fun run :: "auditSave \<Rightarrow> command list \<Rightarrow> store \<Rightarrow> store" where
  "run save [] s = s"
| "run save (c # cs) s = run save cs (exec save c s)"

section \<open>Example data\<close>

definition exampleDocument :: DocumentFile where
  "exampleDocument =
     \<lparr> id_doc = ''d1'', filename = ''report.pdf'', storagePath = ''up/report.pdf'',
       visibilityStatus = PUBLIC, ownerId = ''o1'', deletedAt = None \<rparr>"

definition exampleGrant :: AccessGrant where
  "exampleGrant =
     \<lparr> id_ag = ''g1'', documentId = ''d1'', requestorEmail = ''alice@x.com'',
       requestorName = Some ''Alice'', requestorOrganization = None,
       requestPurpose = ''audit'', accessToken = Some ''u1'', status = PENDING,
       expiryDate = None, denialReason = None, approvalMessage = None,
       revocationMessage = None, actionCompletedAt = None, otp = None,
       otpExpiryDate = None, otpAttempts = 0, isVerified = False, verifiedAt = None,
       downloadSessionToken = None, lastActivityAt = None \<rparr>"

text \<open>An approved grant whose access expired at 500, holding a code valid until 2000.\<close>

definition expiredGrant :: AccessGrant where
  "expiredGrant = exampleGrant\<lparr>status := APPROVED, expiryDate := Some (Instant 500),
     otp := Some ''123456'', otpExpiryDate := Some 2000\<rparr>"

definition expiredStore :: store where
  "expiredStore = \<lparr> grants = [expiredGrant], documents = [exampleDocument], auditLogs = [] \<rparr>"

text \<open>A store with one public document and no grant, and a request turned down.\<close>

definition emptyStore :: store where
  "emptyStore = \<lparr> grants = [], documents = [exampleDocument], auditLogs = [] \<rparr>"

definition exampleDto :: SubmitAccessRequestDto where
  "exampleDto = \<lparr> requestorEmail_dto = ''alice@x.com'', requestorName_dto = Some ''Alice'',
     requestorOrganization_dto = None, requestPurpose_dto = ''audit'' \<rparr>"

definition submitThenDeny :: "command list" where
  "submitThenDeny =
     [SubmitAccessRequest ''g1'' ''u1'' ''d1'' exampleDto,
      DenyAccessRequest 5 ''d1'' ''g1'' ''o1'' None]"

text \<open>An approved grant holding the code 123456, valid until 2000, untried and locked.\<close>

definition otpGrant :: AccessGrant where
  "otpGrant = exampleGrant\<lparr>status := APPROVED, expiryDate := Some (Instant 5000),
     otp := Some ''123456'', otpExpiryDate := Some 2000\<rparr>"

definition otpStore :: store where
  "otpStore = \<lparr> grants = [otpGrant], documents = [exampleDocument], auditLogs = [] \<rparr>"

definition lockedStore :: store where
  "lockedStore = \<lparr> grants = [otpGrant\<lparr>otpAttempts := 3\<rparr>],
     documents = [exampleDocument], auditLogs = [] \<rparr>"

definition twoWrongCodes :: "command list" where
  "twoWrongCodes =
     [VerifyOtp 1000 ''t1'' ''u1'' ''alice@x.com'' ''000000'',
      VerifyOtp 1000 ''t2'' ''u1'' ''alice@x.com'' ''000000'']"

text \<open>A store with one pending request, and an approval until 5000.\<close>

definition pendingStore :: store where
  "pendingStore = \<lparr> grants = [exampleGrant], documents = [exampleDocument], auditLogs = [] \<rparr>"

definition exampleApproveDto :: ApproveAccessRequestDto where
  "exampleApproveDto = \<lparr> expiryDate_dto = Instant 5000, message_dto = Some ''welcome'' \<rparr>"

text \<open>An approval whose expiry date string does not parse, such as \<open>2999-W01\<close>.\<close>

definition unparsedApproveDto :: ApproveAccessRequestDto where
  "unparsedApproveDto = \<lparr> expiryDate_dto = InvalidDate, message_dto = None \<rparr>"

text \<open>A store whose only document is hidden.\<close>

definition hiddenStore :: store where
  "hiddenStore = \<lparr> grants = [], documents = [exampleDocument\<lparr>visibilityStatus := HIDDEN\<rparr>],
     auditLogs = [] \<rparr>"

text \<open>
  Three grants of one document: approved until 5000, approved until 500, and pending.
\<close>

definition bulkStore :: store where
  "bulkStore =
     \<lparr> grants = [exampleGrant\<lparr>status := APPROVED, expiryDate := Some (Instant 5000)\<rparr>,
                 exampleGrant\<lparr>id_ag := ''g2'', requestorEmail := ''bob@x.com'',
                   accessToken := Some ''u2'', status := APPROVED,
                   expiryDate := Some (Instant 500)\<rparr>,
                 exampleGrant\<lparr>id_ag := ''g3'', requestorEmail := ''carol@x.com'',
                   accessToken := Some ''u3''\<rparr>],
       documents = [exampleDocument], auditLogs = [] \<rparr>"

text \<open>The grant after a verification at 1000: a download session with token t1.\<close>

definition sessionGrant :: AccessGrant where
  "sessionGrant = otpGrant\<lparr>isVerified := True, verifiedAt := Some 1000,
     downloadSessionToken := Some ''t1'', lastActivityAt := Some 1000, otp := Some []\<rparr>"

definition sessionStore :: store where
  "sessionStore = \<lparr> grants = [sessionGrant], documents = [exampleDocument], auditLogs = [] \<rparr>"

text \<open>
  An approved grant with no expiry date, verified at 1000, whose \<open>lastActivityAt\<close> is null.
\<close>

definition unrefreshedGrant :: AccessGrant where
  "unrefreshedGrant = exampleGrant\<lparr>status := APPROVED, isVerified := True,
     verifiedAt := Some 1000, downloadSessionToken := Some ''t1''\<rparr>"

definition unrefreshedStore :: store where
  "unrefreshedStore =
     \<lparr> grants = [unrefreshedGrant], documents = [exampleDocument], auditLogs = [] \<rparr>"

section \<open>Auxiliary facts about the repositories\<close>

lemma find_map_replace:
  "find P xs = Some g \<Longrightarrow> P g' \<Longrightarrow>
     find P (map (\<lambda>x. if k x = k g then g' else x) xs) = Some g'"
  by (induction xs) (auto split: if_splits)

lemma find_Some_P: "find P xs = Some g \<Longrightarrow> P g \<and> g \<in> set xs"
  by (induction xs) (auto split: if_splits)

lemma findTokenEmail_saveGrant:
  "findAccessGrantByTokenAndEmail uuid email s = Some g \<Longrightarrow>
   accessToken g' = accessToken g \<Longrightarrow> requestorEmail g' = requestorEmail g \<Longrightarrow>
   id_ag g' = id_ag g \<Longrightarrow>
   findAccessGrantByTokenAndEmail uuid email (saveGrant g' s) = Some g'"
  unfolding findAccessGrantByTokenAndEmail_def saveGrant_def
  using find_map_replace [of "\<lambda>g. accessToken g = Some uuid \<and> requestorEmail g = email" "grants s" g g' id_ag]
    find_Some_P [of "\<lambda>g. accessToken g = Some uuid \<and> requestorEmail g = email" "grants s" g]
  by simp

lemma findTokenEmail_createAuditLog [simp]:
  "findAccessGrantByTokenAndEmail uuid email (createAuditLog save g a ip ua b s)
     = findAccessGrantByTokenAndEmail uuid email s"
  by (simp add: findAccessGrantByTokenAndEmail_def createAuditLog_def Let_def split: option.splits)

lemma grants_saveGrant_nth:
  "i < length (grants s) \<Longrightarrow>
   grants (saveGrant g s) ! i = (if id_ag (grants s ! i) = id_ag g then g else grants s ! i)"
  by (simp add: saveGrant_def)

lemma length_grants_saveGrant [simp]: "length (grants (saveGrant g s)) = length (grants s)"
  by (simp add: saveGrant_def)

lemma ids_saveGrant [simp]: "map id_ag (grants (saveGrant g s)) = map id_ag (grants s)"
  by (simp add: saveGrant_def)

lemma grants_createAuditLog [simp]: "grants (createAuditLog save g a ip ua b s) = grants s"
  by (simp add: createAuditLog_def Let_def split: option.splits)

lemma documents_createAuditLog [simp]: "documents (createAuditLog save g a ip ua b s) = documents s"
  by (simp add: createAuditLog_def Let_def split: option.splits)

lemma grants_saveDocument [simp]: "grants (saveDocument d s) = grants s"
  by (simp add: saveDocument_def)

lemma documents_saveGrant [simp]: "documents (saveGrant g s) = documents s"
  by (simp add: saveGrant_def)

lemma distinct_find_nth:
  assumes "distinct (map id_ag xs)" and "find P xs = Some g" and "i < length xs"
    and "id_ag (xs ! i) = id_ag g"
  shows "xs ! i = g"
proof -
  from assms(2) have "g \<in> set xs" by (simp add: find_Some_P)
  then obtain j where j: "j < length xs" "xs ! j = g" by (auto simp: in_set_conv_nth)
  from assms(3,4) j have "map id_ag xs ! i = map id_ag xs ! j" by simp
  moreover have "i < length (map id_ag xs)" "j < length (map id_ag xs)"
    using assms(3) j(1) by simp_all
  ultimately have "i = j" using assms(1) nth_eq_iff_index_eq by blast
  with j show ?thesis by simp
qed

lemma id_ag_revokeOne [simp]: "id_ag (revokeOne now m g) = id_ag g"
  by (simp add: revokeOne_def Let_def)

lemma distinct_ids_eq:
  "distinct (map id_ag xs) \<Longrightarrow> x \<in> set xs \<Longrightarrow> y \<in> set xs \<Longrightarrow> id_ag x = id_ag y \<Longrightarrow> x = y"
  by (meson distinct_map inj_onD)

lemma saveGrant_map_eq:
  assumes "distinct (map id_ag (grants s))" and "g \<in> set (grants s)" and "id_ag g' = id_ag g"
  shows "grants (saveGrant g' s) = map (\<lambda>x. if x = g then g' else x) (grants s)"
  unfolding saveGrant_def using assms
  by (auto intro: distinct_ids_eq)

lemma revokeEach_grants:
  "distinct (map id_ag (grants s)) \<Longrightarrow> set gs \<subseteq> set (grants s) \<Longrightarrow> distinct gs \<Longrightarrow>
   grants (revokeEach now m gs s) =
     map (\<lambda>x. if x \<in> set gs then revokeOne now m x else x) (grants s)"
proof (induction gs arbitrary: s)
  case Nil
  then show ?case by simp
next
  case (Cons g gs)
  let ?s = "saveGrant (revokeOne now m g) s"
  have g: "g \<in> set (grants s)" and gs: "set gs \<subseteq> set (grants s)" and ng: "g \<notin> set gs"
    and dgs: "distinct gs"
    using Cons.prems by auto
  have eq: "grants ?s = map (\<lambda>x. if x = g then revokeOne now m g else x) (grants s)"
    using saveGrant_map_eq [OF Cons.prems(1) g, of "revokeOne now m g"] by simp
  have d: "distinct (map id_ag (grants ?s))" using Cons.prems(1) by simp
  have sub: "set gs \<subseteq> set (grants ?s)"
  proof
    fix x assume x: "x \<in> set gs"
    with ng have "x \<noteq> g" by auto
    moreover from x gs have "x \<in> set (grants s)" by auto
    ultimately show "x \<in> set (grants ?s)" unfolding eq by force
  qed
  have notin: "revokeOne now m g \<notin> set gs \<or> revokeOne now m g = g"
  proof (cases "revokeOne now m g \<in> set gs")
    case True
    with gs have "revokeOne now m g \<in> set (grants s)" by auto
    with g Cons.prems(1) have "revokeOne now m g = g"
      by (auto intro: distinct_ids_eq)
    then show ?thesis by simp
  next
    case False
    then show ?thesis by simp
  qed
  have "grants (revokeEach now m (g # gs) s) = grants (revokeEach now m gs ?s)" by simp
  also have "\<dots> = map (\<lambda>x. if x \<in> set gs then revokeOne now m x else x) (grants ?s)"
    using Cons.IH [OF d sub dgs] .
  also have "\<dots> = map (\<lambda>x. if x \<in> set (g # gs) then revokeOne now m x else x) (grants s)"
    unfolding eq using notin ng by auto
  finally show ?case .
qed

lemma documents_revokeEach [simp]: "documents (revokeEach now m gs s) = documents s"
  by (induction gs arbitrary: s) simp_all

lemma auditLogs_revokeEach [simp]: "auditLogs (revokeEach now m gs s) = auditLogs s"
  by (induction gs arbitrary: s) (simp_all add: saveGrant_def)

lemma bulkRevokeAccess_grants:
  assumes "distinct (map id_ag (grants s))" and "findOwnedDocument did oid s = Some d"
  shows "grants (snd (bulkRevokeAccess now did oid m s)) =
     map (\<lambda>x. if documentId x = did \<and> status x = APPROVED \<and> \<not> isExpired now x
               then revokeOne now m x else x) (grants s)"
proof -
  let ?gs = "filter (\<lambda>ag. \<not> isExpired now ag)
               (filter (\<lambda>g. documentId g = did \<and> status g = APPROVED) (grants s))"
  have "distinct (grants s)" using assms(1) by (simp add: distinct_map)
  then have "distinct ?gs" by simp
  moreover have "set ?gs \<subseteq> set (grants s)" by auto
  ultimately have "grants (revokeEach now m ?gs s) =
     map (\<lambda>x. if x \<in> set ?gs then revokeOne now m x else x) (grants s)"
    using revokeEach_grants [OF assms(1)] by blast
  then show ?thesis using assms(2)
    by (auto simp: bulkRevokeAccess_def Let_def)
qed

lemma snd_thrown [simp]: "snd (thrown r) = snd r"
  by (cases r rule: thrown.cases) simp_all

lemma submit_grants:
  "grants (snd (submitAccessRequest newId uuid did dto s)) = grants s
   \<or> (\<exists>g. grants (snd (submitAccessRequest newId uuid did dto s)) = grants s @ [g]
          \<and> id_ag g \<notin> set (map id_ag (grants s)))"
  by (auto simp: submitAccessRequest_def insertGrant_def Let_def split: option.splits)

lemma ids_exec:
  "map id_ag (grants (exec save c s)) = map id_ag (grants s)
   \<or> (\<exists>g. grants (exec save c s) = grants s @ [g] \<and> id_ag g \<notin> set (map id_ag (grants s)))"
proof (cases c)
  case (SubmitAccessRequest newId uuid did dto)
  then show ?thesis using submit_grants [of newId uuid did dto s] by (auto simp: exec_def)
next
  case (BulkRevokeAccess now did oid m)
  have "map id_ag (grants (revokeEach now m gs s)) = map id_ag (grants s)" for gs
    by (induction gs arbitrary: s) simp_all
  then show ?thesis using BulkRevokeAccess
    by (auto simp: exec_def bulkRevokeAccess_def Let_def split: option.splits)
qed (auto simp: exec_def approveAccessRequest_def denyAccessRequest_def revokeAccessGrant_def
      updateDocumentVisibility_def deleteDocument_def initiateVerification_def requestOtp_def
      verifyOtp_def validateDownloadSession_def getDocumentForDownload_def recordDownload_def
      Let_def split: option.splits jsDate.splits)

lemma distinct_exec:
  "distinct (map id_ag (grants s)) \<Longrightarrow> distinct (map id_ag (grants (exec save c s)))"
  using ids_exec [of save c s] by auto

lemma length_exec: "length (grants s) \<le> length (grants (exec save c s))"
  using ids_exec [of save c s] by (auto dest: arg_cong [where f = length])

lemma distinct_run:
  "distinct (map id_ag (grants s)) \<Longrightarrow> distinct (map id_ag (grants (run save cs s)))"
  by (induction cs arbitrary: s) (simp_all add: distinct_exec)

lemmas op_defs = approveAccessRequest_def denyAccessRequest_def revokeAccessGrant_def
  updateDocumentVisibility_def deleteDocument_def initiateVerification_def requestOtp_def
  verifyOtp_def validateDownloadSession_def getDocumentForDownload_def recordDownload_def

lemmas find_defs = findGrantOfDocument_def findAccessGrantByTokenAndEmail_def
  findVerifiedSession_def

lemma status_revokeOne [simp]: "status (revokeOne now m g) = REVOKED"
  by (simp add: revokeOne_def Let_def)

lemma otpAttempts_revokeOne [simp]: "otpAttempts (revokeOne now m g) = otpAttempts g"
  by (simp add: revokeOne_def Let_def)

lemma exec_status_step:
  assumes d: "distinct (map id_ag (grants s))" and i: "i < length (grants s)"
  shows "status (grants (exec save c s) ! i) = status (grants s ! i)
       \<or> (status (grants s ! i) = PENDING
            \<and> (status (grants (exec save c s) ! i) = APPROVED
               \<or> status (grants (exec save c s) ! i) = DENIED))
       \<or> (status (grants s ! i) = APPROVED \<and> status (grants (exec save c s) ! i) = REVOKED)
       \<or> (isRevokeAccessGrant c \<and> status (grants (exec save c s) ! i) = REVOKED)"
proof (cases c)
  case (SubmitAccessRequest newId uuid did dto)
  then show ?thesis using submit_grants [of newId uuid did dto s] i
    by (auto simp: exec_def nth_append)
next
  case (BulkRevokeAccess now did oid m)
  show ?thesis
  proof (cases "findOwnedDocument did oid s")
    case None
    then show ?thesis using BulkRevokeAccess by (simp add: exec_def bulkRevokeAccess_def)
  next
    case (Some doc)
    from bulkRevokeAccess_grants [OF d Some, of now m] BulkRevokeAccess i
    show ?thesis by (auto simp: exec_def)
  qed
qed (use d i in \<open>auto simp: exec_def op_defs find_defs Let_def grants_saveGrant_nth
      split: option.splits jsDate.splits dest: distinct_find_nth\<close>)

lemma exec_otpAttempts_step:
  assumes d: "distinct (map id_ag (grants s))" and i: "i < length (grants s)"
    and c: "\<not> isRequestOtp c"
  shows "otpAttempts (grants s ! i) \<le> otpAttempts (grants (exec save c s) ! i)"
proof (cases c)
  case (SubmitAccessRequest newId uuid did dto)
  then show ?thesis using submit_grants [of newId uuid did dto s] i
    by (auto simp: exec_def nth_append)
next
  case (BulkRevokeAccess now did oid m)
  show ?thesis
  proof (cases "findOwnedDocument did oid s")
    case None
    then show ?thesis using BulkRevokeAccess by (simp add: exec_def bulkRevokeAccess_def)
  next
    case (Some doc)
    from bulkRevokeAccess_grants [OF d Some, of now m] BulkRevokeAccess i
    show ?thesis by (auto simp: exec_def)
  qed
qed (use d i c in \<open>auto simp: exec_def op_defs find_defs Let_def grants_saveGrant_nth
      split: option.splits jsDate.splits dest: distinct_find_nth\<close>)

section \<open>Status transitions\<close>

lemma run_submitThenDeny:
  "run save submitThenDeny emptyStore =
     \<lparr> grants = [exampleGrant\<lparr>status := DENIED, actionCompletedAt := Some 5\<rparr>],
       documents = [exampleDocument], auditLogs = [] \<rparr>"
  by (simp add: submitThenDeny_def emptyStore_def exampleDto_def exampleDocument_def
      exampleGrant_def exec_def submitAccessRequest_def denyAccessRequest_def
      findPublicDocument_def findOwnedDocument_def findGrantOfDocument_def insertGrant_def
      saveGrant_def Let_def)

text \<open>
  C1, as the claim has it, fails: \<open>revokeAccessGrant\<close> has no test of the status it
  finds, so it moves a DENIED grant (and a PENDING one) to REVOKED. The grant below is
  submitted, denied and then revoked.
\<close>

theorem denied_grant_revoked_counterexample:
  "status (grants (run auditSaveOk submitThenDeny emptyStore) ! 0) = DENIED \<and>
   status (grants (exec auditSaveOk (RevokeAccessGrant 10 ''d1'' ''g1'' ''o1'' None)
                    (run auditSaveOk submitThenDeny emptyStore)) ! 0) = REVOKED"
  by (simp add: run_submitThenDeny exampleDocument_def exampleGrant_def exec_def
      revokeAccessGrant_def findOwnedDocument_def findGrantOfDocument_def saveGrant_def Let_def)

text \<open>
  C1, amended: in every state reached from a store with unique grant ids by any sequence
  of operations, one more operation leaves the status of each grant unchanged or moves it
  along PENDING to APPROVED or DENIED, or APPROVED to REVOKED, or, when the operation is
  \<open>revokeAccessGrant\<close>, from any status to REVOKED; no operation moves a grant out of
  REVOKED.
\<close>

theorem status_transitions:
  assumes "distinct (map id_ag (grants s0))"
    and "i < length (grants (run save cs s0))"
  shows "i < length (grants (exec save c (run save cs s0))) \<and>
     (let a = status (grants (run save cs s0) ! i);
          b = status (grants (exec save c (run save cs s0)) ! i)
      in (b = a
          \<or> (a = PENDING \<and> (b = APPROVED \<or> b = DENIED))
          \<or> (a = APPROVED \<and> b = REVOKED)
          \<or> (isRevokeAccessGrant c \<and> b = REVOKED))
         \<and> (a = REVOKED \<longrightarrow> b = REVOKED))"
proof -
  let ?s = "run save cs s0"
  have d: "distinct (map id_ag (grants ?s))" using assms(1) by (rule distinct_run)
  have l: "i < length (grants (exec save c ?s))"
    using assms(2) length_exec [of ?s save c] by simp
  from exec_status_step [OF d assms(2), of save c] l show ?thesis
    by (auto simp: Let_def)
qed

theorem status_transitions_witness:
  "distinct (map id_ag (grants emptyStore)) \<and>
   0 < length (grants (run auditSaveOk submitThenDeny emptyStore)) \<and>
   0 < length (grants (exec auditSaveOk (RevokeAccessGrant 10 ''d1'' ''g1'' ''o1'' None)
                    (run auditSaveOk submitThenDeny emptyStore))) \<and>
   isRevokeAccessGrant (RevokeAccessGrant 10 ''d1'' ''g1'' ''o1'' None) \<and>
   status (grants (exec auditSaveOk (RevokeAccessGrant 10 ''d1'' ''g1'' ''o1'' None)
                    (run auditSaveOk submitThenDeny emptyStore)) ! 0) = REVOKED"
proof -
  have d: "distinct (map id_ag (grants emptyStore))" by (simp add: emptyStore_def)
  have l: "0 < length (grants (run auditSaveOk submitThenDeny emptyStore))"
    by (simp add: run_submitThenDeny)
  have a: "status (grants (run auditSaveOk submitThenDeny emptyStore) ! 0) = DENIED"
    by (simp add: run_submitThenDeny)
  have b: "status (grants (exec auditSaveOk (RevokeAccessGrant 10 ''d1'' ''g1'' ''o1'' None)
                    (run auditSaveOk submitThenDeny emptyStore)) ! 0) = REVOKED"
    by (simp add: run_submitThenDeny exampleDocument_def exampleGrant_def exec_def
      revokeAccessGrant_def findOwnedDocument_def findGrantOfDocument_def saveGrant_def Let_def)
  from status_transitions [OF d l, of "RevokeAccessGrant 10 ''d1'' ''g1'' ''o1'' None"] a b d l
  show ?thesis by (simp add: Let_def)
qed

section \<open>The download session predicate\<close>

lemma isSessionActive_with_activity:
  "lastActivityAt g = Some l \<Longrightarrow>
   isSessionActive now g \<longleftrightarrow> isVerified g \<and> \<not> isExpired now g \<and> now - l < 60 * 60 * 1000"
  by (auto simp: isSessionActive_def)

text \<open>
  C2: \<open>isSessionActive()\<close> is to return true only when \<open>lastActivityAt\<close> is present and
  less than 60 minutes old. The method tests the 60 minutes only inside
  \<open>if (this.lastActivityAt)\<close> and returns \<open>true\<close> after it, so on a verified, unexpired
  grant with no \<open>lastActivityAt\<close> it returns true, at any time: here ten hours after the
  verification, where \<open>validateDownloadSession\<close> accepts the session token. With
  \<open>lastActivityAt\<close> present the method computes what C2 says
  (\<open>isSessionActive_with_activity\<close>).
\<close>

theorem isSessionActive_without_lastActivityAt:
  "isVerified unrefreshedGrant \<and> \<not> isExpired 36001000 unrefreshedGrant
   \<and> lastActivityAt unrefreshedGrant = None
   \<and> isSessionActive 36001000 unrefreshedGrant
   \<and> fst (validateDownloadSession auditSaveOk 36001000 ''t1'' unrefreshedStore) =
       Inr \<lparr> isValid = True, expiresIn_status = 3600,
             requestorEmail_status = ''alice@x.com'', documentName_status = ''report.pdf'' \<rparr>"
  by (simp add: unrefreshedStore_def unrefreshedGrant_def exampleGrant_def exampleDocument_def
      isSessionActive_def isExpired_def validateDownloadSession_def findVerifiedSession_def
      documentOf_def SESSION_TIMEOUT_MINUTES_def Let_def)

section \<open>OTP verification\<close>

text \<open>
  C3: on a grant found by (UUID, email) for which \<open>canVerifyOtp\<close> holds and whose stored
  code is the one supplied, \<open>verifyOtp\<close> returns the new session token and leaves the
  grant verified, with the session fields set. Nothing is assumed about the expiry of
  the grant: \<open>isExpired\<close> is not consulted, and the witness is a grant that expired
  before the call.
\<close>

theorem verifyOtp_without_expiry_check:
  assumes "findAccessGrantByTokenAndEmail uuid email s = Some g"
    and "canVerifyOtp now g"
    and "otp g = Some code"
  shows "fst (verifyOtp save now token uuid email code s) =
           Inr \<lparr> downloadSessionToken_resp = token, expiresIn_session = 3600 \<rparr>
       \<and> findAccessGrantByTokenAndEmail uuid email
           (snd (verifyOtp save now token uuid email code s)) =
           Some (g\<lparr>isVerified := True, verifiedAt := Some now,
                    downloadSessionToken := Some token, lastActivityAt := Some now,
                    otp := Some []\<rparr>)"
  using assms
  by (simp add: verifyOtp_def Let_def SESSION_TIMEOUT_MINUTES_def findTokenEmail_saveGrant)

theorem verifyOtp_without_expiry_check_witness:
  "isExpired 1000 expiredGrant \<and>
   fst (verifyOtp auditSaveOk 1000 ''t1'' ''u1'' ''alice@x.com'' ''123456'' expiredStore) =
     Inr \<lparr> downloadSessionToken_resp = ''t1'', expiresIn_session = 3600 \<rparr> \<and>
   findAccessGrantByTokenAndEmail ''u1'' ''alice@x.com''
     (snd (verifyOtp auditSaveOk 1000 ''t1'' ''u1'' ''alice@x.com'' ''123456'' expiredStore)) =
     Some (expiredGrant\<lparr>isVerified := True, verifiedAt := Some 1000,
              downloadSessionToken := Some ''t1'', lastActivityAt := Some 1000,
              otp := Some []\<rparr>)"
proof -
  have f: "findAccessGrantByTokenAndEmail ''u1'' ''alice@x.com'' expiredStore = Some expiredGrant"
    by (simp add: findAccessGrantByTokenAndEmail_def expiredStore_def expiredGrant_def exampleGrant_def)
  have c: "canVerifyOtp 1000 expiredGrant"
    by (simp add: canVerifyOtp_def isOtpExpired_def expiredGrant_def exampleGrant_def)
  have o: "otp expiredGrant = Some ''123456''"
    by (simp add: expiredGrant_def)
  have e: "isExpired 1000 expiredGrant"
    by (simp add: isExpired_def expiredGrant_def exampleGrant_def)
  from verifyOtp_without_expiry_check [OF f c o, of auditSaveOk "''t1''"] e
  show ?thesis by simp
qed

section \<open>Wrong codes and the attempt limit\<close>

lemma verifyOtp_wrong:
  assumes "findAccessGrantByTokenAndEmail uuid email s = Some g"
    and "canVerifyOtp now g" and "otp g \<noteq> Some code"
  shows "fst (verifyOtp save now token uuid email code s) = Inl BadRequestException
       \<and> findAccessGrantByTokenAndEmail uuid email
            (snd (verifyOtp save now token uuid email code s)) =
            Some (g\<lparr>otpAttempts := otpAttempts g + 1\<rparr>)"
  using assms by (simp add: verifyOtp_def Let_def findTokenEmail_saveGrant)

lemma verifyOtp_locked:
  assumes "findAccessGrantByTokenAndEmail uuid email s = Some g" and "3 \<le> otpAttempts g"
  shows "fst (verifyOtp save now token uuid email code s) = Inl ConflictException"
  using assms by (simp add: verifyOtp_def canVerifyOtp_def OTP_MAX_ATTEMPTS_def)

lemma requestOtp_success:
  assumes "findAccessGrantByTokenAndEmail uuid email s = Some g"
    and "canRequestOtp now g" and "documentOf g s = Some d" and "visibilityStatus d = PUBLIC"
  shows "fst (requestOtp save now newOtp uuid email s) =
           Inr \<lparr> otpSentTo = email, expiresIn_otp = 900 \<rparr>
       \<and> (\<exists>g'. findAccessGrantByTokenAndEmail uuid email
                  (snd (requestOtp save now newOtp uuid email s)) = Some g'
              \<and> otpAttempts g' = 0 \<and> otp g' = Some newOtp
              \<and> otpExpiryDate g' = Some (now + 15 * 60 * 1000))"
proof -
  from assms(1) have e: "requestorEmail g = email"
    using find_Some_P [of "\<lambda>g. accessToken g = Some uuid \<and> requestorEmail g = email" "grants s" g]
    by (simp add: findAccessGrantByTokenAndEmail_def)
  show ?thesis using assms e
    by (auto simp: requestOtp_def Let_def OTP_VALIDITY_MINUTES_def findTokenEmail_saveGrant)
qed

text \<open>
  C5, as the claim has it, fails: the third wrong code finds \<open>otpAttempts = 2\<close>, passes
  \<open>canVerifyOtp\<close>, raises the counter to 3 and is answered with BadRequest, as the
  first two are. Conflict is the answer to the call after it.
\<close>

theorem third_wrong_otp_counterexample:
  "otpAttempts otpGrant = 0 \<and> canVerifyOtp 1000 otpGrant \<and>
   fst (verifyOtp auditSaveOk 1000 ''t3'' ''u1'' ''alice@x.com'' ''000000''
          (run auditSaveOk twoWrongCodes otpStore)) = Inl BadRequestException \<and>
   fst (verifyOtp auditSaveOk 1000 ''t3'' ''u1'' ''alice@x.com'' ''000000''
          (run auditSaveOk twoWrongCodes otpStore)) \<noteq> Inl ConflictException"
  by (simp add: twoWrongCodes_def otpStore_def otpGrant_def exampleGrant_def exec_def
      verifyOtp_def findAccessGrantByTokenAndEmail_def canVerifyOtp_def isOtpExpired_def
      OTP_MAX_ATTEMPTS_def saveGrant_def createAuditLog_def auditSaveOk_def Let_def)

text \<open>
  C5, amended: starting from a grant with \<open>otpAttempts = 0\<close> and a code that stays
  unexpired, three calls of \<open>verifyOtp\<close> in a row with a wrong code each fail with
  BadRequest, the third included, and leave \<open>otpAttempts = 3\<close>; the call after them
  fails with Conflict, whatever code it brings.
\<close>

theorem three_wrong_otps:
  assumes "findAccessGrantByTokenAndEmail uuid email s = Some g"
    and "otpAttempts g = 0" and "otp g = Some stored" and "stored \<noteq> []"
    and "otpExpiryDate g = Some e" and "now1 \<le> e" and "now2 \<le> e" and "now3 \<le> e"
    and "c1 \<noteq> stored" and "c2 \<noteq> stored" and "c3 \<noteq> stored"
  shows "(let r1 = verifyOtp save now1 t1 uuid email c1 s;
              r2 = verifyOtp save now2 t2 uuid email c2 (snd r1);
              r3 = verifyOtp save now3 t3 uuid email c3 (snd r2);
              r4 = verifyOtp save now4 t4 uuid email c4 (snd r3)
          in fst r1 = Inl BadRequestException
           \<and> fst r2 = Inl BadRequestException
           \<and> fst r3 = Inl BadRequestException
           \<and> findAccessGrantByTokenAndEmail uuid email (snd r3) = Some (g\<lparr>otpAttempts := 3\<rparr>)
           \<and> fst r4 = Inl ConflictException)"
proof -
  let ?r1 = "verifyOtp save now1 t1 uuid email c1 s"
  let ?r2 = "verifyOtp save now2 t2 uuid email c2 (snd ?r1)"
  let ?r3 = "verifyOtp save now3 t3 uuid email c3 (snd ?r2)"
  let ?g1 = "g\<lparr>otpAttempts := 1\<rparr>"
  let ?g2 = "g\<lparr>otpAttempts := 2\<rparr>"
  let ?g3 = "g\<lparr>otpAttempts := 3\<rparr>"
  have v0: "canVerifyOtp now1 g" and v1: "canVerifyOtp now2 ?g1" and v2: "canVerifyOtp now3 ?g2"
    using assms by (simp_all add: canVerifyOtp_def isOtpExpired_def)
  have w0: "otp g \<noteq> Some c1" and w1: "otp ?g1 \<noteq> Some c2" and w2: "otp ?g2 \<noteq> Some c3"
    using assms by auto
  have 1: "fst ?r1 = Inl BadRequestException"
    "findAccessGrantByTokenAndEmail uuid email (snd ?r1) = Some ?g1"
    using verifyOtp_wrong [OF assms(1) v0 w0, of save t1] assms(2) by simp_all
  have 2: "fst ?r2 = Inl BadRequestException"
    "findAccessGrantByTokenAndEmail uuid email (snd ?r2) = Some ?g2"
    using verifyOtp_wrong [OF 1(2) v1 w1, of save t2] by simp_all
  have 3: "fst ?r3 = Inl BadRequestException"
    "findAccessGrantByTokenAndEmail uuid email (snd ?r3) = Some ?g3"
    using verifyOtp_wrong [OF 2(2) v2 w2, of save t3] by simp_all
  have 4: "fst (verifyOtp save now4 t4 uuid email c4 (snd ?r3)) = Inl ConflictException"
    using verifyOtp_locked [OF 3(2)] by simp
  from 1 2 3 4 show ?thesis by (simp add: Let_def)
qed

theorem three_wrong_otps_witness:
  "(let r1 = verifyOtp auditSaveOk 1000 ''t1'' ''u1'' ''alice@x.com'' ''000000'' otpStore;
        r2 = verifyOtp auditSaveOk 1100 ''t2'' ''u1'' ''alice@x.com'' ''111111'' (snd r1);
        r3 = verifyOtp auditSaveOk 1200 ''t3'' ''u1'' ''alice@x.com'' ''222222'' (snd r2);
        r4 = verifyOtp auditSaveOk 1300 ''t4'' ''u1'' ''alice@x.com'' ''123456'' (snd r3)
    in fst r1 = Inl BadRequestException
     \<and> fst r2 = Inl BadRequestException
     \<and> fst r3 = Inl BadRequestException
     \<and> findAccessGrantByTokenAndEmail ''u1'' ''alice@x.com'' (snd r3) =
         Some (otpGrant\<lparr>otpAttempts := 3\<rparr>)
     \<and> fst r4 = Inl ConflictException)"
proof -
  have f: "findAccessGrantByTokenAndEmail ''u1'' ''alice@x.com'' otpStore = Some otpGrant"
    by (simp add: findAccessGrantByTokenAndEmail_def otpStore_def otpGrant_def exampleGrant_def)
  have a: "otpAttempts otpGrant = 0" by (simp add: otpGrant_def exampleGrant_def)
  have o: "otp otpGrant = Some ''123456''" by (simp add: otpGrant_def)
  have n: "''123456'' \<noteq> []" by simp
  have x: "otpExpiryDate otpGrant = Some 2000" by (simp add: otpGrant_def)
  have t: "(1000::int) \<le> 2000" "(1100::int) \<le> 2000" "(1200::int) \<le> 2000" by simp_all
  have c: "''000000'' \<noteq> ''123456''" "''111111'' \<noteq> ''123456''" "''222222'' \<noteq> ''123456''"
    by simp_all
  show ?thesis
    using three_wrong_otps [OF f a o n x t c, of auditSaveOk "''t1''" "''t2''" "''t3''" 1300 "''t4''" "''123456''"]
    by simp
qed

text \<open>
  C4: a grant found with \<open>otpAttempts\<close> at 3 or more gets Conflict from \<open>verifyOtp\<close>,
  whatever code is supplied, the stored one included. No operation other than
  \<open>requestOtp\<close> lowers the \<open>otpAttempts\<close> of any grant row (in a store with unique
  grant ids), so the counter stays at 3 or more until \<open>requestOtp\<close> is called. A
  \<open>requestOtp\<close> that passes its checks leaves the grant with \<open>otpAttempts = 0\<close>, the
  new code, and \<open>otpExpiryDate\<close> 15 minutes after now.
\<close>

theorem otp_lockout:
  "(findAccessGrantByTokenAndEmail uuid email s = Some g \<longrightarrow> 3 \<le> otpAttempts g \<longrightarrow>
      fst (verifyOtp save now token uuid email code s) = Inl ConflictException)
   \<and> (distinct (map id_ag (grants s)) \<longrightarrow> i < length (grants s) \<longrightarrow> \<not> isRequestOtp c \<longrightarrow>
      otpAttempts (grants s ! i) \<le> otpAttempts (grants (exec save c s) ! i))
   \<and> (findAccessGrantByTokenAndEmail uuid email s = Some g \<longrightarrow> canRequestOtp now g \<longrightarrow>
      documentOf g s = Some d \<longrightarrow> visibilityStatus d = PUBLIC \<longrightarrow>
      fst (requestOtp save now newOtp uuid email s) =
        Inr \<lparr> otpSentTo = email, expiresIn_otp = 900 \<rparr>
      \<and> (\<exists>g'. findAccessGrantByTokenAndEmail uuid email
                 (snd (requestOtp save now newOtp uuid email s)) = Some g'
             \<and> otpAttempts g' = 0 \<and> otp g' = Some newOtp
             \<and> otpExpiryDate g' = Some (now + 15 * 60 * 1000)))"
  using verifyOtp_locked [of uuid email s g save now token code]
    exec_otpAttempts_step [of s i c save]
    requestOtp_success [of uuid email s g now d save newOtp]
  by blast

theorem otp_lockout_witness:
  "fst (verifyOtp auditSaveOk 1000 ''t1'' ''u1'' ''alice@x.com'' ''123456'' lockedStore) =
     Inl ConflictException
   \<and> 3 \<le> otpAttempts (grants (exec auditSaveOk
            (VerifyOtp 1000 ''t1'' ''u1'' ''alice@x.com'' ''123456'') lockedStore) ! 0)
   \<and> fst (requestOtp auditSaveOk 1000 ''654321'' ''u1'' ''alice@x.com'' lockedStore) =
        Inr \<lparr> otpSentTo = ''alice@x.com'', expiresIn_otp = 900 \<rparr>
   \<and> (\<exists>g'. findAccessGrantByTokenAndEmail ''u1'' ''alice@x.com''
              (snd (requestOtp auditSaveOk 1000 ''654321'' ''u1'' ''alice@x.com'' lockedStore)) =
              Some g'
          \<and> otpAttempts g' = 0 \<and> otp g' = Some ''654321''
          \<and> otpExpiryDate g' = Some 901000)"
proof -
  let ?g = "otpGrant\<lparr>otpAttempts := 3\<rparr>"
  have f: "findAccessGrantByTokenAndEmail ''u1'' ''alice@x.com'' lockedStore = Some ?g"
    by (simp add: findAccessGrantByTokenAndEmail_def lockedStore_def otpGrant_def exampleGrant_def)
  have a: "3 \<le> otpAttempts ?g" by simp
  have d: "distinct (map id_ag (grants lockedStore))" by (simp add: lockedStore_def)
  have l: "0 < length (grants lockedStore)" by (simp add: lockedStore_def)
  have n: "\<not> isRequestOtp (VerifyOtp 1000 ''t1'' ''u1'' ''alice@x.com'' ''123456'')" by simp
  have r: "canRequestOtp 1000 ?g"
    by (simp add: canRequestOtp_def isExpired_def otpGrant_def exampleGrant_def)
  have doc: "documentOf ?g lockedStore = Some exampleDocument"
    by (simp add: documentOf_def lockedStore_def otpGrant_def exampleGrant_def exampleDocument_def)
  have p: "visibilityStatus exampleDocument = PUBLIC" by (simp add: exampleDocument_def)
  have g0: "otpAttempts (grants lockedStore ! 0) = 3" by (simp add: lockedStore_def)
  from otp_lockout [where uuid = "''u1''" and email = "''alice@x.com''" and s = lockedStore
      and g = ?g and save = auditSaveOk and now = 1000 and token = "''t1''"
      and code = "''123456''" and i = 0
      and c = "VerifyOtp 1000 ''t1'' ''u1'' ''alice@x.com'' ''123456''"
      and d = exampleDocument and newOtp = "''654321''"] f a d l n r doc p g0
  show ?thesis by simp
qed

section \<open>Approval\<close>

lemma findGrantOfDocument_saveGrant:
  "findGrantOfDocument gid did s = Some g \<Longrightarrow>
   id_ag g' = id_ag g \<Longrightarrow> documentId g' = documentId g \<Longrightarrow>
   findGrantOfDocument gid did (saveGrant g' s) = Some g'"
  unfolding findGrantOfDocument_def saveGrant_def
  using find_map_replace [of "\<lambda>g. id_ag g = gid \<and> documentId g = did" "grants s" g g' id_ag]
    find_Some_P [of "\<lambda>g. id_ag g = gid \<and> documentId g = did" "grants s" g]
  by simp

lemma findOwnedDocument_saveGrant [simp]:
  "findOwnedDocument did oid (saveGrant g s) = findOwnedDocument did oid s"
  by (simp add: findOwnedDocument_def)

text \<open>
  What \<open>approveAccessRequest\<close> does when the expiry date string parses to an instant
  \<open>e\<close>, the document and the grant being found: BadRequest, and nothing written, when
  the status is not PENDING and when \<open>e \<le> now\<close>; on a PENDING grant with \<open>now < e\<close> the
  grant is returned and saved with status APPROVED, the expiry date, the message when
  one is given, and \<open>actionCompletedAt = now\<close>, and any further approval of it throws
  BadRequest.
\<close>

lemma approveAccessRequest_parsed:
  assumes "findOwnedDocument did oid s = Some d"
    and "findGrantOfDocument gid did s = Some g"
    and "expiryDate_dto dto = Instant e"
  shows "(status g \<noteq> PENDING \<longrightarrow>
            approveAccessRequest now did gid oid dto s = (Inl BadRequestException, s))
       \<and> (e \<le> now \<longrightarrow>
            approveAccessRequest now did gid oid dto s = (Inl BadRequestException, s))
       \<and> (status g = PENDING \<and> now < e \<longrightarrow>
            (let g' = g\<lparr>status := APPROVED,
                         expiryDate := Some (Instant e),
                         approvalMessage := (if truthy (message_dto dto) then message_dto dto
                                             else approvalMessage g),
                         actionCompletedAt := Some now\<rparr>
             in approveAccessRequest now did gid oid dto s = (Inr g', saveGrant g' s)
              \<and> findGrantOfDocument gid did (saveGrant g' s) = Some g'
              \<and> approveAccessRequest now2 did gid oid dto2 (saveGrant g' s) =
                  (Inl BadRequestException, saveGrant g' s)))"
proof -
  let ?g' = "g\<lparr>status := APPROVED,
                 expiryDate := Some (Instant e),
                 approvalMessage := (if truthy (message_dto dto) then message_dto dto
                                     else approvalMessage g),
                 actionCompletedAt := Some now\<rparr>"
  have f: "findGrantOfDocument gid did (saveGrant ?g' s) = Some ?g'"
    using findGrantOfDocument_saveGrant [OF assms(2), of ?g'] by simp
  have again: "approveAccessRequest now2 did gid oid dto2 (saveGrant ?g' s) =
                  (Inl BadRequestException, saveGrant ?g' s)"
    using f assms(1) by (simp add: approveAccessRequest_def)
  have first: "status g = PENDING \<Longrightarrow> now < e \<Longrightarrow>
      approveAccessRequest now did gid oid dto s = (Inr ?g', saveGrant ?g' s)"
    using assms by (simp add: approveAccessRequest_def Let_def)
  show ?thesis using assms f again first
    by (auto simp: approveAccessRequest_def Let_def)
qed

lemma approveAccessRequest_parsed_example:
  "approveAccessRequest 1000 ''d1'' ''g1'' ''o1'' exampleApproveDto pendingStore =
     (Inr (exampleGrant\<lparr>status := APPROVED, expiryDate := Some (Instant 5000),
              approvalMessage := Some ''welcome'', actionCompletedAt := Some 1000\<rparr>),
      saveGrant (exampleGrant\<lparr>status := APPROVED, expiryDate := Some (Instant 5000),
              approvalMessage := Some ''welcome'', actionCompletedAt := Some 1000\<rparr>) pendingStore)
   \<and> approveAccessRequest 1001 ''d1'' ''g1'' ''o1'' exampleApproveDto
       (saveGrant (exampleGrant\<lparr>status := APPROVED, expiryDate := Some (Instant 5000),
              approvalMessage := Some ''welcome'', actionCompletedAt := Some 1000\<rparr>) pendingStore) =
     (Inl BadRequestException,
      saveGrant (exampleGrant\<lparr>status := APPROVED, expiryDate := Some (Instant 5000),
              approvalMessage := Some ''welcome'', actionCompletedAt := Some 1000\<rparr>) pendingStore)
   \<and> approveAccessRequest 5000 ''d1'' ''g1'' ''o1'' exampleApproveDto pendingStore =
       (Inl BadRequestException, pendingStore)"
proof -
  have d: "findOwnedDocument ''d1'' ''o1'' pendingStore = Some exampleDocument"
    by (simp add: findOwnedDocument_def pendingStore_def exampleDocument_def)
  have g: "findGrantOfDocument ''g1'' ''d1'' pendingStore = Some exampleGrant"
    by (simp add: findGrantOfDocument_def pendingStore_def exampleGrant_def)
  have x: "expiryDate_dto exampleApproveDto = Instant 5000" by (simp add: exampleApproveDto_def)
  have p: "status exampleGrant = PENDING" by (simp add: exampleGrant_def)
  have m: "approvalMessage exampleGrant = None" by (simp add: exampleGrant_def)
  from approveAccessRequest_parsed [OF d g x, of 1000 1001 exampleApproveDto]
    approveAccessRequest_parsed [OF d g x, of 5000 1001 exampleApproveDto] p m
  show ?thesis by (simp add: exampleApproveDto_def Let_def)
qed

text \<open>
  C7: \<open>approveAccessRequest\<close> is to fail with BadRequest whenever the parsed expiry date
  is not strictly in the future. When the expiry date string does not parse,
  \<open>new Date\<close> gives \<open>Invalid Date\<close>, the guard \<open>expiryDate <= now\<close> is false, and the
  call on a PENDING grant neither throws BadRequest nor succeeds: it saves the grant as
  APPROVED with the invalid expiry date and then throws \<open>RangeError\<close> from
  \<open>toISOString()\<close>. The grant approved in this way is active and never expired.
\<close>

theorem approveAccessRequest_invalid_date:
  "status exampleGrant = PENDING
   \<and> approveAccessRequest 1000 ''d1'' ''g1'' ''o1'' unparsedApproveDto pendingStore =
       (Inl RangeError,
        \<lparr> grants = [exampleGrant\<lparr>status := APPROVED, expiryDate := Some InvalidDate,
                      actionCompletedAt := Some 1000\<rparr>],
          documents = [exampleDocument], auditLogs = [] \<rparr>)
   \<and> fst (approveAccessRequest 1000 ''d1'' ''g1'' ''o1'' unparsedApproveDto pendingStore)
       \<noteq> Inl BadRequestException
   \<and> isActive 36001000 (exampleGrant\<lparr>status := APPROVED, expiryDate := Some InvalidDate,
                      actionCompletedAt := Some 1000\<rparr>)
   \<and> \<not> isExpired 36001000 (exampleGrant\<lparr>status := APPROVED, expiryDate := Some InvalidDate,
                      actionCompletedAt := Some 1000\<rparr>)"
  by (simp add: unparsedApproveDto_def pendingStore_def exampleGrant_def exampleDocument_def
      approveAccessRequest_def findOwnedDocument_def findGrantOfDocument_def saveGrant_def
      isActive_def isExpired_def Let_def)

section \<open>Submission\<close>

text \<open>
  C8: a submission against a document that is not found public and undeleted throws
  NotFound. Against one that is, it throws Conflict if and only if some grant of the
  same document and requestor email is PENDING (grants of any other status do not count);
  when none is, and the generated key is new, it appends one grant, PENDING, whose
  \<open>accessToken\<close> is the UUID returned as \<open>requestUUID\<close>.
\<close>

theorem submitAccessRequest_outcomes:
  "(findPublicDocument did s = None \<longrightarrow>
      submitAccessRequest newId uuid did dto s = (Inl NotFoundException, s))
   \<and> (findPublicDocument did s = Some d \<longrightarrow>
        (fst (submitAccessRequest newId uuid did dto s) = Inl ConflictException
           \<longleftrightarrow> (\<exists>g \<in> set (grants s). documentId g = did
                   \<and> requestorEmail g = requestorEmail_dto dto \<and> status g = PENDING))
      \<and> (\<not> (\<exists>g \<in> set (grants s). documentId g = did
                   \<and> requestorEmail g = requestorEmail_dto dto \<and> status g = PENDING)
           \<longrightarrow> newId \<notin> set (map id_ag (grants s))
           \<longrightarrow> (\<exists>g r. submitAccessRequest newId uuid did dto s =
                         (Inr r, s\<lparr>grants := grants s @ [g]\<rparr>)
                    \<and> id_ag g = newId \<and> documentId g = did
                    \<and> requestorEmail g = requestorEmail_dto dto
                    \<and> status g = PENDING \<and> accessToken g = Some uuid
                    \<and> id_resp r = newId \<and> requestUUID r = uuid \<and> status_resp r = PENDING)))"
proof -
  let ?P = "\<lambda>g. documentId g = did \<and> requestorEmail g = requestorEmail_dto dto \<and> status g = PENDING"
  have n: "find ?P (grants s) = None \<longleftrightarrow> \<not> (\<exists>g \<in> set (grants s). ?P g)"
    by (auto simp: find_None_iff)
  show ?thesis
  proof (cases "find ?P (grants s)")
    case None
    with n show ?thesis
      by (auto simp: submitAccessRequest_def insertGrant_def Let_def split: option.splits)
  next
    case (Some a)
    with n show ?thesis
      by (auto simp: submitAccessRequest_def insertGrant_def Let_def split: option.splits)
  qed
qed

theorem submitAccessRequest_outcomes_witness:
  "fst (submitAccessRequest ''g2'' ''u2'' ''d1'' exampleDto pendingStore) = Inl ConflictException
   \<and> submitAccessRequest ''g2'' ''u2'' ''d1'' exampleDto hiddenStore =
       (Inl NotFoundException, hiddenStore)
   \<and> (\<exists>g r. submitAccessRequest ''g2'' ''u2'' ''d1'' exampleDto
                (run auditSaveOk submitThenDeny emptyStore) =
                (Inr r, (run auditSaveOk submitThenDeny emptyStore)
                   \<lparr>grants := grants (run auditSaveOk submitThenDeny emptyStore) @ [g]\<rparr>)
            \<and> status g = PENDING \<and> accessToken g = Some ''u2'' \<and> requestUUID r = ''u2'')"
proof -
  have h: "findPublicDocument ''d1'' hiddenStore = None"
    by (simp add: findPublicDocument_def hiddenStore_def exampleDocument_def)
  have p: "findPublicDocument ''d1'' pendingStore = Some exampleDocument"
    by (simp add: findPublicDocument_def pendingStore_def exampleDocument_def)
  have e: "\<exists>g \<in> set (grants pendingStore). documentId g = ''d1''
             \<and> requestorEmail g = requestorEmail_dto exampleDto \<and> status g = PENDING"
    by (simp add: pendingStore_def exampleGrant_def exampleDto_def)
  have q: "findPublicDocument ''d1'' (run auditSaveOk submitThenDeny emptyStore) = Some exampleDocument"
    by (simp add: run_submitThenDeny findPublicDocument_def exampleDocument_def)
  have ne: "\<not> (\<exists>g \<in> set (grants (run auditSaveOk submitThenDeny emptyStore)). documentId g = ''d1''
             \<and> requestorEmail g = requestorEmail_dto exampleDto \<and> status g = PENDING)"
    by (simp add: run_submitThenDeny)
  have fr: "''g2'' \<notin> set (map id_ag (grants (run auditSaveOk submitThenDeny emptyStore)))"
    by (simp add: run_submitThenDeny exampleGrant_def)
  from submitAccessRequest_outcomes [of "''d1''" hiddenStore "''g2''" "''u2''" exampleDto exampleDocument]
    submitAccessRequest_outcomes [of "''d1''" pendingStore "''g2''" "''u2''" exampleDto exampleDocument]
    submitAccessRequest_outcomes [of "''d1''" "run auditSaveOk submitThenDeny emptyStore" "''g2''" "''u2''" exampleDto exampleDocument]
    h p e q ne fr
  show ?thesis by blast
qed

section \<open>Bulk revocation\<close>

text \<open>
  C6: for a document found for its owner, in a store with unique grant ids,
  \<open>bulkRevokeAccess\<close> returns normally and rewrites exactly the grants of that document
  that are APPROVED and not expired: their status becomes REVOKED, \<open>actionCompletedAt\<close>
  becomes now, and \<open>revocationMessage\<close> the message when one is given. Every other
  grant, the APPROVED but expired ones included, is the row it was, and nothing else in
  the store changes.
\<close>

theorem bulkRevokeAccess_effect:
  assumes "distinct (map id_ag (grants s))"
    and "findOwnedDocument did oid s = Some d"
  shows "fst (bulkRevokeAccess now did oid m s) = Inr ()
       \<and> grants (snd (bulkRevokeAccess now did oid m s)) =
           map (\<lambda>x. if documentId x = did \<and> status x = APPROVED \<and> \<not> isExpired now x
                     then x\<lparr>status := REVOKED,
                            revocationMessage := (if truthy m then m else revocationMessage x),
                            actionCompletedAt := Some now\<rparr>
                     else x) (grants s)
       \<and> documents (snd (bulkRevokeAccess now did oid m s)) = documents s
       \<and> auditLogs (snd (bulkRevokeAccess now did oid m s)) = auditLogs s"
proof -
  have r: "revokeOne now m x =
             x\<lparr>status := REVOKED,
               revocationMessage := (if truthy m then m else revocationMessage x),
               actionCompletedAt := Some now\<rparr>" for x
    by (simp add: revokeOne_def Let_def)
  have "fst (bulkRevokeAccess now did oid m s) = Inr ()"
    "documents (snd (bulkRevokeAccess now did oid m s)) = documents s"
    "auditLogs (snd (bulkRevokeAccess now did oid m s)) = auditLogs s"
    using assms(2) by (simp_all add: bulkRevokeAccess_def Let_def)
  with bulkRevokeAccess_grants [OF assms, of now m] show ?thesis
    by (simp add: r)
qed

theorem bulkRevokeAccess_effect_witness:
  "map status (grants (snd (bulkRevokeAccess 1000 ''d1'' ''o1'' (Some ''closed'') bulkStore))) =
     [REVOKED, APPROVED, PENDING]
   \<and> grants (snd (bulkRevokeAccess 1000 ''d1'' ''o1'' (Some ''closed'') bulkStore)) ! 1 =
       grants bulkStore ! 1
   \<and> isExpired 1000 (grants bulkStore ! 1)"
proof -
  have d: "distinct (map id_ag (grants bulkStore))"
    by (simp add: bulkStore_def exampleGrant_def)
  have f: "findOwnedDocument ''d1'' ''o1'' bulkStore = Some exampleDocument"
    by (simp add: findOwnedDocument_def bulkStore_def exampleDocument_def)
  from bulkRevokeAccess_effect [OF d f, of 1000 "Some ''closed''"]
  show ?thesis
    by (simp add: bulkStore_def exampleGrant_def isExpired_def)
qed

section \<open>Audit logging\<close>

lemma findVerifiedSession_saveGrant:
  "findVerifiedSession token s = Some g \<Longrightarrow>
   id_ag g' = id_ag g \<Longrightarrow> downloadSessionToken g' = downloadSessionToken g \<Longrightarrow>
   isVerified g' = isVerified g \<Longrightarrow>
   findVerifiedSession token (saveGrant g' s) = Some g'"
  unfolding findVerifiedSession_def saveGrant_def
  using find_map_replace [of "\<lambda>g. downloadSessionToken g = Some token \<and> isVerified g" "grants s" g g' id_ag]
    find_Some_P [of "\<lambda>g. downloadSessionToken g = Some token \<and> isVerified g" "grants s" g]
  by simp

lemma findVerifiedSession_createAuditLog [simp]:
  "findVerifiedSession token (createAuditLog save g a ip ua b s) = findVerifiedSession token s"
  by (simp add: findVerifiedSession_def)

lemma documentOf_saveGrant [simp]: "documentOf g (saveGrant g' s) = documentOf g s"
  by (simp add: documentOf_def)

lemma documentOf_createAuditLog [simp]:
  "documentOf g (createAuditLog save g' a ip ua b s) = documentOf g s"
  by (simp add: documentOf_def)

lemma grants_saveGrant_createAuditLog [simp]:
  "grants (saveGrant g (createAuditLog save g' a ip ua b s)) = grants (saveGrant g s)"
  by (simp add: saveGrant_def)

lemma perform_audit_independent:
  "fst (perform save c s) = fst (perform auditSaveOk c s)
   \<and> grants (snd (perform save c s)) = grants (snd (perform auditSaveOk c s))
   \<and> documents (snd (perform save c s)) = documents (snd (perform auditSaveOk c s))"
  by (cases c)
     (auto simp: initiateVerification_def requestOtp_def verifyOtp_def
        validateDownloadSession_def getDocumentForDownload_def recordDownload_def
        Let_def split: option.splits)

lemma recordDownload_active:
  assumes "findVerifiedSession token s = Some g" and "isSessionActive now g"
  shows "fst (recordDownload save now token bytes ip ua s) = Inr ()
       \<and> grants (snd (recordDownload save now token bytes ip ua s)) =
           grants (saveGrant (g\<lparr>lastActivityAt := Some now\<rparr>) s)
       \<and> findVerifiedSession token (snd (recordDownload save now token bytes ip ua s)) =
           Some (g\<lparr>lastActivityAt := Some now\<rparr>)"
  using assms by (simp add: recordDownload_def Let_def findVerifiedSession_saveGrant)

text \<open>
  C9: whatever the audit repository does on a write (\<open>save\<close> is any function, failing
  when it returns \<open>None\<close>), every operation throws the same exception or none, and
  leaves the same grants and documents, as with a repository that always writes. In
  particular, with a repository that always fails, \<open>recordDownload\<close> on a session
  token whose grant is found verified and with an active session returns normally and
  leaves the store with \<open>lastActivityAt\<close> of that grant set to now.
\<close>

theorem audit_failure_not_propagated:
  "fst (perform save c s) = fst (perform auditSaveOk c s)
   \<and> grants (snd (perform save c s)) = grants (snd (perform auditSaveOk c s))
   \<and> documents (snd (perform save c s)) = documents (snd (perform auditSaveOk c s))
   \<and> (findVerifiedSession token s = Some g \<longrightarrow> isSessionActive now g \<longrightarrow>
        recordDownload auditSaveFails now token bytes ip ua s =
          (Inr (), saveGrant (g\<lparr>lastActivityAt := Some now\<rparr>) s)
        \<and> findVerifiedSession token
            (snd (recordDownload auditSaveFails now token bytes ip ua s)) =
            Some (g\<lparr>lastActivityAt := Some now\<rparr>))"
proof -
  have "recordDownload auditSaveFails now token bytes ip ua s =
          (Inr (), saveGrant (g\<lparr>lastActivityAt := Some now\<rparr>) s)"
    if "findVerifiedSession token s = Some g" and "isSessionActive now g"
    using that by (simp add: recordDownload_def Let_def createAuditLog_def auditSaveFails_def)
  with perform_audit_independent [of save c s]
    recordDownload_active [of token s g now auditSaveFails bytes ip ua]
  show ?thesis by blast
qed

theorem audit_failure_not_propagated_witness:
  "fst (perform auditSaveFails (RecordDownload 2000 ''t1'' 42 ''10.0.0.1'' ''curl'') sessionStore) = None
   \<and> recordDownload auditSaveFails 2000 ''t1'' 42 ''10.0.0.1'' ''curl'' sessionStore =
       (Inr (), \<lparr> grants = [sessionGrant\<lparr>lastActivityAt := Some 2000\<rparr>],
                  documents = [exampleDocument], auditLogs = [] \<rparr>)"
proof -
  have f: "findVerifiedSession ''t1'' sessionStore = Some sessionGrant"
    by (simp add: findVerifiedSession_def sessionStore_def sessionGrant_def)
  have a: "isSessionActive 2000 sessionGrant"
    by (simp add: isSessionActive_def isExpired_def sessionGrant_def otpGrant_def exampleGrant_def)
  have ok: "fst (perform auditSaveOk (RecordDownload 2000 ''t1'' 42 ''10.0.0.1'' ''curl'') sessionStore) = None"
    using f a by (simp add: recordDownload_def Let_def)
  have sv: "saveGrant (sessionGrant\<lparr>lastActivityAt := Some 2000\<rparr>) sessionStore =
      \<lparr> grants = [sessionGrant\<lparr>lastActivityAt := Some 2000\<rparr>],
        documents = [exampleDocument], auditLogs = [] \<rparr>"
    by (simp add: saveGrant_def sessionStore_def)
  from audit_failure_not_propagated [of auditSaveFails
      "RecordDownload 2000 ''t1'' 42 ''10.0.0.1'' ''curl''" sessionStore "''t1''" sessionGrant 2000
      42 "''10.0.0.1''" "''curl''"] f a ok sv
  show ?thesis by simp
qed

section \<open>Revocation and the download session\<close>

text \<open>
  C10: with the document and the grant found, \<open>revokeAccessGrant\<close> saves the grant with
  new \<open>status\<close>, \<open>revocationMessage\<close> (when a message is given) and
  \<open>actionCompletedAt\<close>, and no other field changed: \<open>isVerified\<close>, \<open>verifiedAt\<close>,
  \<open>downloadSessionToken\<close>, \<open>lastActivityAt\<close> and \<open>expiryDate\<close> are as before. The
  revoked grant is never expired. If the grant was verified with \<open>lastActivityAt\<close> less
  than 60 minutes before \<open>t\<close>, its session is active at \<open>t\<close> after the revocation,
  and, the document being public, \<open>validateDownloadSession\<close>, \<open>getDocumentForDownload\<close>
  and \<open>recordDownload\<close> with its session token succeed on the store the revocation
  leaves.
\<close>

theorem revokeAccessGrant_keeps_session:
  assumes "findOwnedDocument did oid s = Some d"
    and "findGrantOfDocument gid did s = Some g"
  shows "(let g' = g\<lparr>status := REVOKED,
                     revocationMessage := (if truthy m then m else revocationMessage g),
                     actionCompletedAt := Some now\<rparr>
          in revokeAccessGrant now did gid oid m s = (Inr (), saveGrant g' s)
           \<and> isVerified g' = isVerified g \<and> verifiedAt g' = verifiedAt g
           \<and> downloadSessionToken g' = downloadSessionToken g
           \<and> lastActivityAt g' = lastActivityAt g \<and> expiryDate g' = expiryDate g
           \<and> \<not> isExpired t g'
           \<and> (isVerified g \<longrightarrow> lastActivityAt g = Some l \<longrightarrow> t - l < 60 * 60 * 1000 \<longrightarrow>
                isSessionActive t g'
                \<and> (findVerifiedSession tok s = Some g \<longrightarrow> documentOf g s = Some d' \<longrightarrow>
                     visibilityStatus d' = PUBLIC \<longrightarrow>
                     fst (validateDownloadSession save t tok (saveGrant g' s)) =
                       Inr \<lparr> isValid = True, expiresIn_status = 3600,
                             requestorEmail_status = requestorEmail g,
                             documentName_status = filename d' \<rparr>
                     \<and> fst (getDocumentForDownload save t tok (saveGrant g' s)) =
                         Inr (g'\<lparr>lastActivityAt := Some t\<rparr>, d')
                     \<and> fst (recordDownload save t tok bytes ip ua (saveGrant g' s)) = Inr ())))"
proof -
  let ?g' = "g\<lparr>status := REVOKED,
                 revocationMessage := (if truthy m then m else revocationMessage g),
                 actionCompletedAt := Some now\<rparr>"
  have r: "revokeAccessGrant now did gid oid m s = (Inr (), saveGrant ?g' s)"
    using assms by (simp add: revokeAccessGrant_def Let_def)
  have e: "\<not> isExpired t ?g'" by (simp add: isExpired_def)
  have a: "isSessionActive t ?g'"
    if "isVerified g" and "lastActivityAt g = Some l" and "t - l < 60 * 60 * 1000"
    using that by (simp add: isSessionActive_def isExpired_def)
  have v: "fst (validateDownloadSession save t tok (saveGrant ?g' s)) =
             Inr \<lparr> isValid = True, expiresIn_status = 3600,
                   requestorEmail_status = requestorEmail g,
                   documentName_status = filename d' \<rparr>
         \<and> fst (getDocumentForDownload save t tok (saveGrant ?g' s)) =
             Inr (?g'\<lparr>lastActivityAt := Some t\<rparr>, d')
         \<and> fst (recordDownload save t tok bytes ip ua (saveGrant ?g' s)) = Inr ()"
    if "isVerified g" and "lastActivityAt g = Some l" and "t - l < 60 * 60 * 1000"
      and f: "findVerifiedSession tok s = Some g" and "documentOf g s = Some d'"
      and "visibilityStatus d' = PUBLIC"
  proof -
    have f': "findVerifiedSession tok (saveGrant ?g' s) = Some ?g'"
      using findVerifiedSession_saveGrant [OF f, of ?g'] by simp
    have doc: "documentOf ?g' (saveGrant ?g' s) = Some d'"
      using that(5) by (simp add: documentOf_def)
    show ?thesis using f' doc a [OF that(1,2,3)] that(6)
      by (simp add: validateDownloadSession_def getDocumentForDownload_def recordDownload_def
          Let_def SESSION_TIMEOUT_MINUTES_def)
  qed
  show ?thesis unfolding Let_def using r e a v by simp
qed

theorem revokeAccessGrant_keeps_session_witness:
  "isSessionActive 2000 sessionGrant
   \<and> fst (revokeAccessGrant 1500 ''d1'' ''g1'' ''o1'' None sessionStore) = Inr ()
   \<and> status (grants (snd (revokeAccessGrant 1500 ''d1'' ''g1'' ''o1'' None sessionStore)) ! 0)
       = REVOKED
   \<and> fst (validateDownloadSession auditSaveOk 2000 ''t1''
            (snd (revokeAccessGrant 1500 ''d1'' ''g1'' ''o1'' None sessionStore))) =
       Inr \<lparr> isValid = True, expiresIn_status = 3600,
             requestorEmail_status = ''alice@x.com'', documentName_status = ''report.pdf'' \<rparr>
   \<and> fst (recordDownload auditSaveOk 2000 ''t1'' 42 ''10.0.0.1'' ''curl''
            (snd (revokeAccessGrant 1500 ''d1'' ''g1'' ''o1'' None sessionStore))) = Inr ()"
proof -
  have d: "findOwnedDocument ''d1'' ''o1'' sessionStore = Some exampleDocument"
    by (simp add: findOwnedDocument_def sessionStore_def exampleDocument_def)
  have g: "findGrantOfDocument ''g1'' ''d1'' sessionStore = Some sessionGrant"
    by (simp add: findGrantOfDocument_def sessionStore_def sessionGrant_def otpGrant_def
        exampleGrant_def)
  have f: "findVerifiedSession ''t1'' sessionStore = Some sessionGrant"
    by (simp add: findVerifiedSession_def sessionStore_def sessionGrant_def)
  have doc: "documentOf sessionGrant sessionStore = Some exampleDocument"
    by (simp add: documentOf_def sessionStore_def sessionGrant_def otpGrant_def exampleGrant_def
        exampleDocument_def)
  have p: "visibilityStatus exampleDocument = PUBLIC" "filename exampleDocument = ''report.pdf''"
    by (simp_all add: exampleDocument_def)
  have v: "isVerified sessionGrant" "lastActivityAt sessionGrant = Some 1000"
    "requestorEmail sessionGrant = ''alice@x.com''"
    by (simp_all add: sessionGrant_def otpGrant_def exampleGrant_def)
  have a: "isSessionActive 2000 sessionGrant"
    by (simp add: isSessionActive_def isExpired_def sessionGrant_def otpGrant_def exampleGrant_def)
  have s0: "grants (saveGrant x sessionStore) ! 0 = x" if "id_ag x = id_ag sessionGrant" for x
    using that by (simp add: saveGrant_def sessionStore_def)
  from revokeAccessGrant_keeps_session [OF d g, where m = None and now = 1500 and t = 2000
      and l = 1000 and tok = "''t1''" and d' = exampleDocument and save = auditSaveOk
      and bytes = 42 and ip = "''10.0.0.1''" and ua = "''curl''"] f doc p v a s0
  show ?thesis by (simp add: Let_def)
qed

end
